theory Spec2Isabelle
  imports Main "HOL-Library.Word"
begin

section \<open>The background-removal filter \<^verbatim>\<open>scripts/remove-bg.py\<close>\<close>

text \<open>
  The script reads all of standard input, hands the bytes to \<^verbatim>\<open>rembg.remove\<close>, and
  writes the bytes that come back to standard output. Everything it does is an effect on
  one of the three standard streams, a call of the external function, or the exit status.
  The model therefore threads a log of the effects performed so far through the
  statements of \<^verbatim>\<open>main\<close>, and carries Python's exceptions as values.
\<close>

subsection \<open>Data\<close>

type_synonym bytes = "8 word list"

text \<open>
  The exceptions that occur in the script. \<^verbatim>\<open>sys.exit(n)\<close> raises \<^verbatim>\<open>SystemExit\<close>, which
  derives from \<^verbatim>\<open>BaseException\<close> only and so passes through an \<^verbatim>\<open>except Exception\<close>
  clause. Every other exception is kept by its description \<^verbatim>\<open>str(e)\<close>.
\<close>

datatype exn = SystemExit int | Exception string

text \<open>
  What one call of an external operation does: it returns a value, or it raises an
  exception derived from \<^verbatim>\<open>Exception\<close> whose description is the given string.
\<close>

datatype 'a outcome = Returned 'a | Raised string

text \<open>
  The surroundings of one run. \<open>remove_result\<close> is what \<^verbatim>\<open>rembg.remove\<close> does with a
  buffer in this run; \<open>write_result\<close> is what the statement
  \<^verbatim>\<open>sys.stdout.buffer.write(b)\<close> does with a buffer in this run. Both are parameters:
  neither the segmentation model nor the state of the output stream is part of the
  script. A write that returns has delivered the whole buffer; a write that raises is
  taken to have delivered nothing. Two runs on the same input may have different
  surroundings, which is how a capability that is not deterministic is expressed.
\<close>

record env =
  remove_result :: "bytes \<Rightarrow> bytes outcome"
  write_result :: "bytes \<Rightarrow> unit outcome"

text \<open>The effects of a run, in the order in which they happen.\<close>

datatype event =
    StdinRead bytes
  | RemoveCall bytes
  | RemoveReturn bytes
  | RemoveRaise string
  | StdoutWrite bytes
  | StderrWrite string
  | Traceback string

type_synonym trace = "event list"

text \<open>
  A statement takes the log so far and gives back the extended log together with either
  the exception it raised or its value.
\<close>

type_synonym 'a py = "trace \<Rightarrow> (exn + 'a) \<times> trace"

subsection \<open>Control flow\<close>

definition returns :: "'a \<Rightarrow> 'a py" where
  "returns x = (\<lambda>t. (Inr x, t))"

definition raise_exn :: "exn \<Rightarrow> 'a py" where
  "raise_exn e = (\<lambda>t. (Inl e, t))"

text \<open>Sequencing: an exception raised by the first statement skips the rest.\<close>

definition seq :: "'a py \<Rightarrow> ('a \<Rightarrow> 'b py) \<Rightarrow> 'b py" where
  "seq m f = (\<lambda>t. case m t of
                     (Inl e, t') \<Rightarrow> (Inl e, t')
                   | (Inr x, t') \<Rightarrow> f x t')"

text \<open>
  \<^verbatim>\<open>try: body  except Exception as e: handler\<close>. Only \<open>Exception\<close> is caught;
  \<open>SystemExit\<close> propagates. The handler receives \<^verbatim>\<open>str(e)\<close>.
\<close>

definition try_except_Exception :: "'a py \<Rightarrow> (string \<Rightarrow> 'a py) \<Rightarrow> 'a py" where
  "try_except_Exception body handler = (\<lambda>t. case body t of
                     (Inl (Exception msg), t') \<Rightarrow> handler msg t'
                   | (Inl (SystemExit n), t') \<Rightarrow> (Inl (SystemExit n), t')
                   | (Inr x, t') \<Rightarrow> (Inr x, t'))"

subsection \<open>The operations the script calls\<close>

text \<open>\<^verbatim>\<open>sys.stdin.buffer.read()\<close>: consumes the stream to its end and returns all of it.\<close>

definition stdin_buffer_read :: "bytes \<Rightarrow> bytes py" where
  "stdin_buffer_read stream = (\<lambda>t. (Inr stream, t @ [StdinRead stream]))"

text \<open>\<^verbatim>\<open>sys.stderr.write(s)\<close>.\<close>

definition stderr_write :: "string \<Rightarrow> unit py" where
  "stderr_write s = (\<lambda>t. (Inr (), t @ [StderrWrite s]))"

text \<open>\<^verbatim>\<open>sys.exit(n)\<close>.\<close>

definition sys_exit :: "int \<Rightarrow> 'a py" where
  "sys_exit n = raise_exn (SystemExit n)"

text \<open>\<^verbatim>\<open>remove(b)\<close>, imported from \<^verbatim>\<open>rembg\<close>.\<close>

definition remove_rembg :: "env \<Rightarrow> bytes \<Rightarrow> bytes py" where
  "remove_rembg E b = (\<lambda>t. case remove_result E b of
                     Returned out \<Rightarrow> (Inr out, t @ [RemoveCall b, RemoveReturn out])
                   | Raised msg \<Rightarrow> (Inl (Exception msg), t @ [RemoveCall b, RemoveRaise msg]))"

text \<open>\<^verbatim>\<open>sys.stdout.buffer.write(b)\<close>.\<close>

definition stdout_buffer_write :: "env \<Rightarrow> bytes \<Rightarrow> unit py" where
  "stdout_buffer_write E b = (\<lambda>t. case write_result E b of
                     Returned u \<Rightarrow> (Inr (), t @ [StdoutWrite b])
                   | Raised msg \<Rightarrow> (Inl (Exception msg), t))"

subsection \<open>The script\<close>

text \<open>
  \<^verbatim>\<open>
  def main():
      input_data = sys.stdin.buffer.read()
      if not input_data:
          sys.stderr.write("Error: No input data received\n")
          sys.exit(1)
      try:
          output_data = remove(input_data)
          sys.stdout.buffer.write(output_data)
      except Exception as e:
          sys.stderr.write(f"Error: {str(e)}\n")
          sys.exit(1)
  \<close>
  A \<^verbatim>\<open>bytes\<close> object is false exactly when it has length zero.
\<close>

definition main :: "env \<Rightarrow> bytes \<Rightarrow> unit py" where
  "main E stream =
     seq (stdin_buffer_read stream) (\<lambda>input_data.
     seq (if input_data = []
          then seq (stderr_write ''Error: No input data received\<newline>'') (\<lambda>_. sys_exit 1)
          else returns ()) (\<lambda>_.
     try_except_Exception
       (seq (remove_rembg E input_data) (\<lambda>output_data.
        stdout_buffer_write E output_data))
       (\<lambda>e. seq (stderr_write (''Error: '' @ e @ ''\<newline>'')) (\<lambda>_. sys_exit 1))))"

text \<open>
  The process: \<^verbatim>\<open>if __name__ == "__main__": main()\<close>. When \<open>main\<close> returns the
  interpreter exits with status 0; a \<open>SystemExit\<close> that reaches the top level sets the
  status it carries; any other exception that reaches the top level is printed as a
  traceback and the status is 1.
\<close>

record process =
  effects :: trace
  exit_status :: int

definition run :: "env \<Rightarrow> bytes \<Rightarrow> process" where
  "run E stream = (case main E stream [] of
       (Inr u, t) \<Rightarrow> \<lparr>effects = t, exit_status = 0\<rparr>
     | (Inl (SystemExit n), t) \<Rightarrow> \<lparr>effects = t, exit_status = n\<rparr>
     | (Inl (Exception msg), t) \<Rightarrow> \<lparr>effects = t @ [Traceback msg], exit_status = 1\<rparr>)"

subsection \<open>What an observer of the process sees\<close>

text \<open>The bytes on the output stream, and the writes made to it.\<close>

fun stdout_writes :: "trace \<Rightarrow> bytes list" where
  "stdout_writes [] = []"
| "stdout_writes (StdoutWrite b # t) = b # stdout_writes t"
| "stdout_writes (_ # t) = stdout_writes t"

definition stdout_of :: "process \<Rightarrow> bytes" where
  "stdout_of p = concat (stdout_writes (effects p))"

text \<open>
  The messages on the diagnostic stream (the script's own, and a traceback printed by
  the interpreter), and the text they add up to.
\<close>

fun stderr_writes :: "trace \<Rightarrow> string list" where
  "stderr_writes [] = []"
| "stderr_writes (StderrWrite s # t) = s # stderr_writes t"
| "stderr_writes (Traceback s # t) =
     (''Traceback (most recent call last):\<newline>'' @ s @ ''\<newline>'') # stderr_writes t"
| "stderr_writes (_ # t) = stderr_writes t"

definition stderr_of :: "process \<Rightarrow> string" where
  "stderr_of p = concat (stderr_writes (effects p))"

text \<open>The buffers with which the external capability was invoked.\<close>

fun remove_calls :: "trace \<Rightarrow> bytes list" where
  "remove_calls [] = []"
| "remove_calls (RemoveCall b # t) = b # remove_calls t"
| "remove_calls (_ # t) = remove_calls t"




subsection \<open>Concrete surroundings\<close>

text \<open>
  The eight bytes with which every PNG file begins stand for an encoded image in the
  instances below, and the test for them stands for the validity of an encoding. The
  script never looks inside a buffer, so the general statements take the validity
  predicate as a parameter.
\<close>

definition png_signature :: bytes where
  "png_signature = [0x89, 0x50, 0x4E, 0x47, 0x0D, 0x0A, 0x1A, 0x0A]"


text \<open>A capability that succeeds, and an output stream that accepts the write.\<close>

definition env_ok :: env where
  "env_ok = \<lparr>remove_result = (\<lambda>b. Returned png_signature),
             write_result = (\<lambda>b. Returned ())\<rparr>"


text \<open>A capability that rejects its input.\<close>

definition env_garbage :: env where
  "env_garbage = \<lparr>remove_result = (\<lambda>b. Raised ''cannot identify image file''),
                  write_result = (\<lambda>b. Returned ())\<rparr>"

text \<open>
  A process started with its standard output closed: \<^verbatim>\<open>sys.stdout\<close> is \<^verbatim>\<open>None\<close>, and the
  statement \<^verbatim>\<open>sys.stdout.buffer.write(b)\<close> raises \<^verbatim>\<open>AttributeError\<close> with this description,
  whatever the buffer.
\<close>

definition no_stdout_message :: string where
  "no_stdout_message =
     CHR 0x27 # ''NoneType'' @ CHR 0x27 # '' object has no attribute '' @
     CHR 0x27 # ''buffer'' @ [CHR 0x27]"

text \<open>A capability that succeeds, in a process without standard output.\<close>

definition env_no_stdout :: env where
  "env_no_stdout = \<lparr>remove_result = (\<lambda>b. Returned png_signature),
                    write_result = (\<lambda>b. Raised no_stdout_message)\<rparr>"

text \<open>A capability that returns an empty buffer, with an output stream that accepts.\<close>

definition env_empty_result :: env where
  "env_empty_result = \<lparr>remove_result = (\<lambda>b. Returned []),
                       write_result = (\<lambda>b. Returned ())\<rparr>"

text \<open>A capability that returns an empty buffer, in a process without standard output.\<close>

definition env_empty_result_no_stdout :: env where
  "env_empty_result_no_stdout = \<lparr>remove_result = (\<lambda>b. Returned []),
                                 write_result = (\<lambda>b. Raised no_stdout_message)\<rparr>"

section \<open>The four runs\<close>

text \<open>
  A run takes one of four courses, decided by the input being empty, by the outcome of
  the removal, and by the outcome of the write. Each lemma gives the whole log and the
  exit status of one course.
\<close>

lemma run_empty:
  "run E [] = \<lparr>effects = [StdinRead [], StderrWrite ''Error: No input data received\<newline>''],
               exit_status = 1\<rparr>"
  by (simp add: run_def main_def seq_def stdin_buffer_read_def stderr_write_def sys_exit_def
      raise_exn_def)

lemma run_remove_raised:
  assumes "input_data \<noteq> []" and "remove_result E input_data = Raised msg"
  shows "run E input_data =
           \<lparr>effects = [StdinRead input_data, RemoveCall input_data, RemoveRaise msg,
                        StderrWrite (''Error: '' @ msg @ ''\<newline>'')],
            exit_status = 1\<rparr>"
  using assms
  by (simp add: run_def main_def seq_def stdin_buffer_read_def stderr_write_def sys_exit_def
      raise_exn_def returns_def try_except_Exception_def remove_rembg_def)

lemma run_write_raised:
  assumes "input_data \<noteq> []" and "remove_result E input_data = Returned out"
    and "write_result E out = Raised msg"
  shows "run E input_data =
           \<lparr>effects = [StdinRead input_data, RemoveCall input_data, RemoveReturn out,
                        StderrWrite (''Error: '' @ msg @ ''\<newline>'')],
            exit_status = 1\<rparr>"
  using assms
  by (simp add: run_def main_def seq_def stdin_buffer_read_def stderr_write_def sys_exit_def
      raise_exn_def returns_def try_except_Exception_def remove_rembg_def
      stdout_buffer_write_def)

lemma run_written:
  assumes "input_data \<noteq> []" and "remove_result E input_data = Returned out"
    and "write_result E out = Returned u"
  shows "run E input_data =
           \<lparr>effects = [StdinRead input_data, RemoveCall input_data, RemoveReturn out,
                        StdoutWrite out],
            exit_status = 0\<rparr>"
  using assms
  by (simp add: run_def main_def seq_def stdin_buffer_read_def stderr_write_def sys_exit_def
      raise_exn_def returns_def try_except_Exception_def remove_rembg_def
      stdout_buffer_write_def)

text \<open>No run takes any other course.\<close>

lemma run_cases:
  obtains
    (Empty) "input_data = []"
  | (RemoveRaised) msg where "input_data \<noteq> []" "remove_result E input_data = Raised msg"
  | (WriteRaised) out msg where "input_data \<noteq> []" "remove_result E input_data = Returned out"
      "write_result E out = Raised msg"
  | (Written) out where "input_data \<noteq> []" "remove_result E input_data = Returned out"
      "write_result E out = Returned ()"
proof (cases "input_data = []")
  case True
  then show ?thesis by (rule Empty)
next
  case nonempty: False
  show ?thesis
  proof (cases "remove_result E input_data")
    case (Raised msg)
    with nonempty show ?thesis by (rule RemoveRaised)
  next
    case (Returned out)
    show ?thesis
    proof (cases "write_result E out")
      case (Raised msg)
      with nonempty Returned show ?thesis by (rule WriteRaised)
    next
      case r: (Returned u)
      then have "write_result E out = Returned ()" by simp
      with nonempty Returned show ?thesis by (rule Written)
    qed
  qed
qed

text \<open>The runs in the concrete surroundings, on the first two bytes of a JPEG file.\<close>

lemma run_env_ok:
  "run env_ok [0xFF, 0xD8] =
     \<lparr>effects = [StdinRead [0xFF, 0xD8], RemoveCall [0xFF, 0xD8], RemoveReturn png_signature,
                  StdoutWrite png_signature],
      exit_status = 0\<rparr>"
  by (rule run_written [where u = "()"]) (simp_all add: env_ok_def)



lemma run_env_empty_result_no_stdout:
  "run env_empty_result_no_stdout [0xFF, 0xD8] =
     \<lparr>effects = [StdinRead [0xFF, 0xD8], RemoveCall [0xFF, 0xD8], RemoveReturn [],
                  StderrWrite (''Error: '' @ no_stdout_message @ ''\<newline>'')],
      exit_status = 1\<rparr>"
  by (rule run_write_raised) (simp_all add: env_empty_result_no_stdout_def)

section \<open>Claims\<close>

text \<open>
  C1. On empty input the process puts exactly \<^verbatim>\<open>Error: No input data received\<close> and a
  newline on the diagnostic stream, puts no byte on the output stream, never invokes the
  removal capability, and exits with status 1.
\<close>

theorem empty_input_reported:
  "stderr_of (run E []) = ''Error: No input data received\<newline>''
   \<and> stdout_of (run E []) = []
   \<and> remove_calls (effects (run E [])) = []
   \<and> exit_status (run E []) = 1"
  by (simp add: run_empty stderr_of_def stdout_of_def)

theorem empty_input_reported_witness:
  "stderr_of (run env_ok []) = ''Error: No input data received\<newline>''
   \<and> stdout_of (run env_ok []) = []
   \<and> remove_calls (effects (run env_ok [])) = []
   \<and> exit_status (run env_ok []) = 1"
  using empty_input_reported [of env_ok] by simp

text \<open>
  C2. On a non-empty input for which the removal capability raises an error, the error
  is caught: the diagnostic stream receives \<^verbatim>\<open>Error: \<close>, the description of the error
  and a newline, and nothing else (no traceback); the output stream receives no byte; the
  exit status is 1.
\<close>

theorem removal_error_reported:
  assumes "input_data \<noteq> []" and "remove_result E input_data = Raised msg"
  shows "stderr_of (run E input_data) = ''Error: '' @ msg @ ''\<newline>''
         \<and> stderr_writes (effects (run E input_data)) = [''Error: '' @ msg @ ''\<newline>'']
         \<and> stdout_of (run E input_data) = []
         \<and> exit_status (run E input_data) = 1"
  by (simp add: run_remove_raised [OF assms] stderr_of_def stdout_of_def)

theorem removal_error_reported_witness:
  "[0x6E, 0x6F] \<noteq> ([] :: bytes)
   \<and> remove_result env_garbage [0x6E, 0x6F] = Raised ''cannot identify image file''
   \<and> stderr_of (run env_garbage [0x6E, 0x6F]) = ''Error: cannot identify image file\<newline>''
   \<and> stdout_of (run env_garbage [0x6E, 0x6F]) = []
   \<and> exit_status (run env_garbage [0x6E, 0x6F]) = 1"
proof -
  have ne: "[0x6E, 0x6F] \<noteq> ([] :: bytes)" by simp
  have r: "remove_result env_garbage [0x6E, 0x6F] = Raised ''cannot identify image file''"
    by (simp add: env_garbage_def)
  show ?thesis
    using removal_error_reported [OF ne r] r by simp
qed




text \<open>
  C4. Whenever a run writes bytes to the output stream, the whole input stream has been
  read before that write and the removal capability has returned those very bytes before
  that write; so output is produced only when the input is non-empty and the removal
  completed without failure.
\<close>

theorem no_output_before_removal_done:
  assumes "effects (run E input_data) = before @ StdoutWrite b # after"
  shows "StdinRead input_data \<in> set before
         \<and> RemoveReturn b \<in> set before
         \<and> input_data \<noteq> []
         \<and> remove_result E input_data = Returned b"
proof (cases rule: run_cases [where input_data = input_data and E = E])
  case Empty
  with assms show ?thesis
    by (auto simp: run_empty Cons_eq_append_conv)
next
  case (RemoveRaised msg)
  with assms show ?thesis
    by (auto simp: run_remove_raised Cons_eq_append_conv)
next
  case (WriteRaised out msg)
  with assms show ?thesis
    by (auto simp: run_write_raised Cons_eq_append_conv)
next
  case (Written out)
  with assms show ?thesis
    by (auto simp: run_written Cons_eq_append_conv)
qed

theorem no_output_before_removal_done_witness:
  "effects (run env_ok [0xFF, 0xD8]) =
     [StdinRead [0xFF, 0xD8], RemoveCall [0xFF, 0xD8], RemoveReturn png_signature]
       @ StdoutWrite png_signature # []
   \<and> StdinRead [0xFF, 0xD8]
       \<in> set [StdinRead [0xFF, 0xD8], RemoveCall [0xFF, 0xD8], RemoveReturn png_signature]
   \<and> RemoveReturn png_signature
       \<in> set [StdinRead [0xFF, 0xD8], RemoveCall [0xFF, 0xD8], RemoveReturn png_signature]
   \<and> remove_result env_ok [0xFF, 0xD8] = Returned png_signature"
proof -
  have e: "effects (run env_ok [0xFF, 0xD8]) =
     [StdinRead [0xFF, 0xD8], RemoveCall [0xFF, 0xD8], RemoveReturn png_signature]
       @ StdoutWrite png_signature # []"
    by (simp add: run_env_ok)
  from no_output_before_removal_done [OF e] e show ?thesis
    by blast
qed











text \<open>
  C9. The guarded block covers the write of the result. On a non-empty input for which
  the removal capability returns a buffer and the write of that buffer raises an error,
  the error is caught: the diagnostic stream receives \<^verbatim>\<open>Error: \<close>, the description of the
  error and a newline, and nothing else (no traceback), and the exit status is 1.
\<close>

theorem write_error_reported:
  assumes "input_data \<noteq> []" and "remove_result E input_data = Returned out"
    and "write_result E out = Raised msg"
  shows "stderr_of (run E input_data) = ''Error: '' @ msg @ ''\<newline>''
         \<and> stderr_writes (effects (run E input_data)) = [''Error: '' @ msg @ ''\<newline>'']
         \<and> exit_status (run E input_data) = 1"
  by (simp add: run_write_raised [OF assms] stderr_of_def)

theorem write_error_reported_witness:
  "[0xFF, 0xD8] \<noteq> ([] :: bytes)
   \<and> remove_result env_no_stdout [0xFF, 0xD8] = Returned png_signature
   \<and> write_result env_no_stdout png_signature = Raised no_stdout_message
   \<and> stderr_of (run env_no_stdout [0xFF, 0xD8]) = ''Error: '' @ no_stdout_message @ ''\<newline>''
   \<and> exit_status (run env_no_stdout [0xFF, 0xD8]) = 1"
proof -
  have i: "[0xFF, 0xD8] \<noteq> ([] :: bytes)" by simp
  have r: "remove_result env_no_stdout [0xFF, 0xD8] = Returned png_signature"
    by (simp add: env_no_stdout_def)
  have w: "write_result env_no_stdout png_signature = Raised no_stdout_message"
    by (simp add: env_no_stdout_def)
  show ?thesis
    using write_error_reported [OF i r w] r w by simp
qed

text \<open>
  C10 (as amended). On a non-empty input for which the removal capability returns the
  empty buffer without raising, and for which the write of that buffer raises no error,
  the run writes zero bytes to the output stream, writes nothing to the diagnostic
  stream, and ends with exit status 0: a successful run with empty output exists.
\<close>

theorem empty_result_is_success:
  assumes "input_data \<noteq> []" and "remove_result E input_data = Returned []"
    and "write_result E [] = Returned ()"
  shows "stdout_of (run E input_data) = []
         \<and> stdout_writes (effects (run E input_data)) = [ [] ]
         \<and> stderr_of (run E input_data) = []
         \<and> exit_status (run E input_data) = 0"
  by (simp add: run_written [OF assms] stdout_of_def stderr_of_def)

theorem empty_result_is_success_witness:
  "[0xFF, 0xD8] \<noteq> ([] :: bytes)
   \<and> remove_result env_empty_result [0xFF, 0xD8] = Returned []
   \<and> write_result env_empty_result [] = Returned ()
   \<and> stdout_of (run env_empty_result [0xFF, 0xD8]) = []
   \<and> stderr_of (run env_empty_result [0xFF, 0xD8]) = []
   \<and> exit_status (run env_empty_result [0xFF, 0xD8]) = 0"
proof -
  have i: "[0xFF, 0xD8] \<noteq> ([] :: bytes)" by simp
  have r: "remove_result env_empty_result [0xFF, 0xD8] = Returned []"
    by (simp add: env_empty_result_def)
  have w: "write_result env_empty_result [] = Returned ()"
    by (simp add: env_empty_result_def)
  show ?thesis
    using empty_result_is_success [OF i r w] r w by simp
qed

text \<open>
  C10 as stated fails: the return of an empty buffer does not by itself give exit status
  0, because the write of the empty buffer is a statement of the guarded block like any
  other. In a process without standard output that statement raises, and the run ends
  with status 1.
\<close>

theorem empty_result_is_success_counterexample:
  "[0xFF, 0xD8] \<noteq> ([] :: bytes)
   \<and> remove_result env_empty_result_no_stdout [0xFF, 0xD8] = Returned []
   \<and> exit_status (run env_empty_result_no_stdout [0xFF, 0xD8]) = 1
   \<and> stderr_of (run env_empty_result_no_stdout [0xFF, 0xD8])
        = ''Error: '' @ no_stdout_message @ ''\<newline>''
   \<and> \<not> (stdout_of (run env_empty_result_no_stdout [0xFF, 0xD8]) = []
        \<and> exit_status (run env_empty_result_no_stdout [0xFF, 0xD8]) = 0)"
proof -
  have r: "remove_result env_empty_result_no_stdout [0xFF, 0xD8] = Returned []"
    by (simp add: env_empty_result_no_stdout_def)
  show ?thesis
    by (simp add: r run_env_empty_result_no_stdout stderr_of_def)
qed

end
